theory Spec2Isabelle
  imports Complex_Main "HOL-Library.AList" "HOL-Library.Char_ord" "HOL-Library.List_Lexorder"
    "HOL-Library.Product_Lexorder"
begin

section \<open>Tables\<close>

text \<open>
  A pandas cell is a number, a string or the missing value (NaN / None). A DataFrame is
  its list of column labels and its list of rows; a label is a cell, since a pivot
  turns the values of a column into labels.
\<close>

datatype cell = Num real | Str string | NaN

record dataframe =
  columns :: "cell list"
  rows :: "cell list list"

datatype py_error = IndexError

section \<open>The yield script (procesador_rnn.py)\<close>

text \<open>
  The script keeps the rows of the spreadsheet whose first cell is the string
  \<open>Turrialba\<close>, and for each of them builds the dictionary \<open>fila_resultado\<close>: the
  non-null cells after the first column, taken two at a time, under the keys
  \<open>mes-produccion\<close> and \<open>mes-area\<close> of the twelve months. A Python dictionary keeps
  insertion order and an assignment to a present key replaces its value: an
  association list with \<open>AList.update\<close>.
\<close>

definition meses :: "string list" where
  "meses = [''enero'', ''febrero'', ''marzo'', ''abril'', ''mayo'', ''junio'',
            ''julio'', ''agosto'', ''septiembre'', ''octubre'', ''noviembre'', ''diciembre'']"

definition dropna :: "cell list \<Rightarrow> cell list" where
  "dropna cs = filter (\<lambda>c. c \<noteq> NaN) cs"

text \<open>\<open>fila.iloc[1:].dropna().tolist()\<close>\<close>

definition valores_de :: "cell list \<Rightarrow> cell list" where
  "valores_de fila = dropna (drop 1 fila)"

text \<open>The body of \<open>for i, mes in enumerate(meses)\<close>, over the pairs still to visit.\<close>

fun asignar :: "cell list \<Rightarrow> (nat \<times> string) list \<Rightarrow> (cell \<times> cell) list \<Rightarrow> (cell \<times> cell) list" where
  "asignar valores [] d = d"
| "asignar valores ((i, mes) # resto) d =
     (let d1 = (if i * 2 < length valores
                then AList.update (Str (mes @ ''-produccion'')) (valores ! (i * 2)) d else d);
          d2 = (if i * 2 + 1 < length valores
                then AList.update (Str (mes @ ''-area'')) (valores ! (i * 2 + 1)) d1 else d1)
      in asignar valores resto d2)"

definition fila_resultado :: "cell \<Rightarrow> cell list \<Rightarrow> (cell \<times> cell) list" where
  "fila_resultado primera_columna valores =
     asignar valores (enumerate 0 meses) [(primera_columna, Str ''Turrialba'')]"



text \<open>The key of slot \<open>p\<close> of the value list: month \<open>p div 2\<close>, production first.\<close>

definition clave :: "nat \<Rightarrow> cell" where
  "clave p = Str (meses ! (p div 2) @ (if even p then ''-produccion'' else ''-area''))"

section \<open>Strings\<close>

text \<open>
  Python strings are modelled for ASCII text: \<open>str.isspace\<close> holds of the characters
  9 to 13, 28 to 31 and the blank; \<open>str.upper\<close> changes the letters a to z.
\<close>

definition isspace :: "char \<Rightarrow> bool" where
  "isspace c = ((of_char c :: nat) \<in> set [9, 10, 11, 12, 13, 28, 29, 30, 31, 32])"

definition strip :: "string \<Rightarrow> string" where
  "strip s = rev (dropWhile isspace (rev (dropWhile isspace s)))"

definition upper_char :: "char \<Rightarrow> char" where
  "upper_char c =
     (if 97 \<le> (of_char c :: nat) \<and> (of_char c :: nat) \<le> 122
      then char_of ((of_char c :: nat) - 32) else c)"

definition upper :: "string \<Rightarrow> string" where
  "upper s = map upper_char s"

definition startswith :: "string \<Rightarrow> string \<Rightarrow> bool" where
  "startswith s p = (take (length p) s = p)"


text \<open>
  \<open>os.path.splitext(p)[0]\<close> for a bare file name, as \<open>os.listdir\<close> returns it (no
  path separator, so \<open>sepIndex\<close> is \<open>-1\<close>): the name up to its last dot, unless every
  character before that dot is a dot too; then the whole name.
\<close>

definition rfind :: "string \<Rightarrow> char \<Rightarrow> nat option" where
  "rfind p c =
     (if c \<in> set p then Some (length p - 1 - length (takeWhile (\<lambda>x. x \<noteq> c) (rev p)))
      else None)"

definition splitext_root :: "string \<Rightarrow> string" where
  "splitext_root p =
     (case rfind p (CHR ''.'') of
        None \<Rightarrow> p
      | Some dotIndex \<Rightarrow>
          if \<exists>x \<in> set (take dotIndex p). x \<noteq> CHR ''.'' then take dotIndex p else p)"

section \<open>The atmospheric file parser (ProcesadorDatosAtmosfericos._leer_archivo)\<close>

text \<open>
  Every way the method returns \<open>None\<close>, told apart by the message it logs: no header
  line, an empty table, missing columns (with their names), or an exception caught by
  \<open>except Exception\<close>.
\<close>

datatype fallo =
    SinEncabezado
  | TablaVacia
  | ColumnasFaltantes "string list"
  | ErrorProcesando

text \<open>The loop over \<open>enumerate(lineas)\<close> with its \<open>break\<close>; \<open>i\<close> is the index of the head.\<close>

fun buscar_encabezado :: "nat \<Rightarrow> string list \<Rightarrow> nat option" where
  "buscar_encabezado i [] = None"
| "buscar_encabezado i (linea # resto) =
     (if startswith (strip linea) ''PARAMETER,YEAR'' then Some i
      else buscar_encabezado (Suc i) resto)"

definition empty_df :: "dataframe \<Rightarrow> bool" where
  "empty_df df = (columns df = [] \<or> rows df = [])"

definition columnas_necesarias :: "string list" where
  "columnas_necesarias = [''PARAMETER'', ''YEAR'', ''JAN'', ''FEB'', ''MAR'', ''APR'',
                          ''MAY'', ''JUN'', ''JUL'', ''AUG'', ''SEP'', ''OCT'', ''NOV'', ''DEC'']"

definition value_vars :: "string list" where
  "value_vars = [''JAN'', ''FEB'', ''MAR'', ''APR'', ''MAY'', ''JUN'',
                 ''JUL'', ''AUG'', ''SEP'', ''OCT'', ''NOV'', ''DEC'']"

definition columnas_faltantes :: "dataframe \<Rightarrow> string list" where
  "columnas_faltantes df = filter (\<lambda>col. Str col \<notin> set (columns df)) columnas_necesarias"

text \<open>The cell of a row under a label (the first column that bears it).\<close>

definition celda :: "cell list \<Rightarrow> cell list \<Rightarrow> cell \<Rightarrow> cell" where
  "celda cols fila c = (case map_of (zip cols fila) c of Some v \<Rightarrow> v | None \<Rightarrow> NaN)"

text \<open>
  \<open>df.melt(id_vars=[PARAMETER, YEAR], value_vars=[JAN .. DEC])\<close>: the long rows
  (PARAMETER, YEAR, mes, valor), month by month, the rows of the table in order within
  each month.
\<close>

type_synonym fila_larga = "cell \<times> cell \<times> cell \<times> cell"

definition fila_larga_de :: "dataframe \<Rightarrow> string \<Rightarrow> cell list \<Rightarrow> fila_larga" where
  "fila_larga_de df mes fila =
     (celda (columns df) fila (Str ''PARAMETER''), celda (columns df) fila (Str ''YEAR''),
      Str mes, celda (columns df) fila (Str mes))"

definition melt :: "dataframe \<Rightarrow> fila_larga list" where
  "melt df = concat (map (\<lambda>mes. map (fila_larga_de df mes) (rows df)) value_vars)"

text \<open>
  \<open>pd.to_numeric(..., errors='coerce')\<close> on one cell; \<open>parse\<close> is the library's reading
  of a string as a number (\<open>None\<close> when it is not one).
\<close>

definition to_numeric :: "(string \<Rightarrow> real option) \<Rightarrow> cell \<Rightarrow> cell" where
  "to_numeric parse c =
     (case c of
        Num x \<Rightarrow> Num x
      | Str s \<Rightarrow> (case parse s of Some x \<Rightarrow> Num x | None \<Rightarrow> NaN)
      | NaN \<Rightarrow> NaN)"

definition valor_numerico :: "(string \<Rightarrow> real option) \<Rightarrow> fila_larga \<Rightarrow> fila_larga" where
  "valor_numerico parse l = (case l of (p, y, m, v) \<Rightarrow> (p, y, m, to_numeric parse v))"

text \<open>
  \<open>pivot_table(index=[YEAR, mes], columns=PARAMETER, values=valor, aggfunc='mean')\<close>.
  The long rows are grouped by (YEAR, mes, PARAMETER), rows with a null key left out;
  the mean of a group is taken over its non-null values, and a group without one is
  dropped. The index (YEAR, mes) and the columns (PARAMETER) of the table are the keys
  of the groups that remain, sorted, numbers before strings; a cell without a group is
  null. \<open>reset_index()\<close> then puts YEAR and mes in front as columns, and raises when a
  PARAMETER bears one of these two names.
\<close>

type_synonym clave_grupo = "cell \<times> cell \<times> cell"

definition mean :: "real list \<Rightarrow> real" where
  "mean xs = sum_list xs / real (length xs)"

definition clave_de :: "fila_larga \<Rightarrow> clave_grupo" where
  "clave_de l = (case l of (p, y, m, v) \<Rightarrow> (y, m, p))"

definition claves_grupos :: "fila_larga list \<Rightarrow> clave_grupo list" where
  "claves_grupos ls =
     remdups (map clave_de
       (filter (\<lambda>l. case l of (p, y, m, v) \<Rightarrow> p \<noteq> NaN \<and> y \<noteq> NaN \<and> m \<noteq> NaN) ls))"

fun numero :: "cell \<Rightarrow> real list" where
  "numero (Num x) = [x]"
| "numero _ = []"

definition valores_grupo :: "fila_larga list \<Rightarrow> clave_grupo \<Rightarrow> real list" where
  "valores_grupo ls k =
     concat (map (\<lambda>l. case l of (p, y, m, v) \<Rightarrow> numero v) (filter (\<lambda>l. clave_de l = k) ls))"

definition agregados :: "fila_larga list \<Rightarrow> (clave_grupo \<times> real) list" where
  "agregados ls =
     map (\<lambda>k. (k, mean (valores_grupo ls k)))
       (filter (\<lambda>k. valores_grupo ls k \<noteq> []) (claves_grupos ls))"

fun orden_celda :: "cell \<Rightarrow> nat \<times> real \<times> string" where
  "orden_celda (Num x) = (0, x, [])"
| "orden_celda (Str s) = (1, 0, s)"
| "orden_celda NaN = (2, 0, [])"

definition pivot_table :: "fila_larga list \<Rightarrow> dataframe option" where
  "pivot_table ls =
     (let ag = agregados ls;
          indice = sort_key (\<lambda>(y, m). (orden_celda y, orden_celda m))
                     (remdups (map (\<lambda>((y, m, p), x). (y, m)) ag));
          params = sort_key orden_celda (remdups (map (\<lambda>((y, m, p), x). p) ag))
      in if Str ''YEAR'' \<in> set params \<or> Str ''mes'' \<in> set params then None
         else Some \<lparr>columns = [Str ''YEAR'', Str ''mes''] @ params,
                    rows = map (\<lambda>(y, m). [y, m] @
                             map (\<lambda>p. case map_of ag (y, m, p) of
                                          Some x \<Rightarrow> Num x | None \<Rightarrow> NaN) params) indice\<rparr>)"

text \<open>\<open>df[c] = v\<close> for a scalar: the column is overwritten, or added last.\<close>

definition asignar_columna :: "dataframe \<Rightarrow> cell \<Rightarrow> cell \<Rightarrow> dataframe" where
  "asignar_columna df c v =
     (if c \<in> set (columns df)
      then df\<lparr>rows := map (\<lambda>fila. map (\<lambda>(l, x). if l = c then v else x)
                            (zip (columns df) fila)) (rows df)\<rparr>
      else df\<lparr>columns := columns df @ [c], rows := map (\<lambda>fila. fila @ [v]) (rows df)\<rparr>)"

definition rename_columna :: "dataframe \<Rightarrow> cell \<Rightarrow> cell \<Rightarrow> dataframe" where
  "rename_columna df viejo nuevo =
     df\<lparr>columns := map (\<lambda>l. if l = viejo then nuevo else l) (columns df)\<rparr>"

text \<open>
  The method, in two parts. \<open>transformar\<close> is what it does with the table once read
  (from \<open>if df.empty\<close> to \<open>return df_pivoteado\<close>); the emptiness test comes before
  the test of the columns, as in the source. \<open>leer_archivo\<close> is the whole method: the
  file is the list of its lines as \<open>readlines\<close> gives them, or \<open>None\<close> when it cannot
  be opened or decoded; \<open>read_csv\<close> is the library's reader, handed the lines from
  \<open>indice_inicio\<close> on (\<open>skiprows\<close>), and \<open>None\<close> is an exception of the reader.
\<close>

definition transformar ::
  "(string \<Rightarrow> real option) \<Rightarrow> string \<Rightarrow> dataframe \<Rightarrow> fallo + dataframe" where
  "transformar parse canton df =
     (if empty_df df then Inl TablaVacia
      else if columnas_faltantes df \<noteq> [] then Inl (ColumnasFaltantes (columnas_faltantes df))
      else
        (case pivot_table (map (valor_numerico parse) (melt df)) of
           None \<Rightarrow> Inl ErrorProcesando
         | Some df_pivoteado \<Rightarrow>
             Inr (rename_columna
                    (asignar_columna df_pivoteado (Str ''canton'') (Str (upper (strip canton))))
                    (Str ''YEAR'') (Str ''anio''))))"

definition leer_archivo ::
  "(string list \<Rightarrow> dataframe option) \<Rightarrow> (string \<Rightarrow> real option) \<Rightarrow>
   string list option \<Rightarrow> string \<Rightarrow> fallo + dataframe" where
  "leer_archivo read_csv parse contenido canton =
     (case contenido of
        None \<Rightarrow> Inl ErrorProcesando
      | Some lineas \<Rightarrow>
          (case buscar_encabezado 0 lineas of
             None \<Rightarrow> Inl SinEncabezado
           | Some indice_inicio \<Rightarrow>
               (case read_csv (drop indice_inicio lineas) of
                  None \<Rightarrow> Inl ErrorProcesando
                | Some df \<Rightarrow> transformar parse canton df)))"

section \<open>The batch loader (ProcesadorDatosAtmosfericos.procesar_todos)\<close>



text \<open>
  The loop over \<open>archivos\<close>, with \<open>df_final\<close> and \<open>archivos_procesados\<close> as state; \<open>leer\<close>
  is the call of \<open>_leer_archivo\<close> on a file name.
\<close>

fun recorrer ::
  "(string \<Rightarrow> fallo + dataframe) \<Rightarrow> string list \<Rightarrow> dataframe list \<times> nat \<Rightarrow>
   dataframe list \<times> nat" where
  "recorrer leer [] estado = estado"
| "recorrer leer (archivo # resto) (df_final, archivos_procesados) =
     (case leer archivo of
        Inl _ \<Rightarrow> recorrer leer resto (df_final, archivos_procesados)
      | Inr df_canton \<Rightarrow>
          recorrer leer resto (df_final @ [df_canton], archivos_procesados + 1))"

text \<open>
  \<open>procesar_todos()\<close> without an output file name, as the pipeline calls it.
  \<open>listdir\<close> is the listing of the folder and \<open>fs\<close> gives the lines of a file of it.
\<close>

definition leer_en ::
  "(string list \<Rightarrow> dataframe option) \<Rightarrow> (string \<Rightarrow> real option) \<Rightarrow>
   (string \<Rightarrow> string list option) \<Rightarrow> string \<Rightarrow> fallo + dataframe" where
  "leer_en read_csv parse fs archivo =
     leer_archivo read_csv parse (fs archivo) (splitext_root archivo)"



section \<open>The quality report (PipelineProcesamiento.generar_reporte_calidad)\<close>

text \<open>
  The numerator of the completeness formula, \<open>df_final.isnull().sum().sum()\<close>, is a
  NumPy integer, so the division is NumPy's: by zero it gives NaN for \<open>0 / 0\<close> and an
  infinity otherwise, with a warning, and raises nothing. The result is a float that
  may be a number, an infinity or NaN; numbers are taken as reals.
\<close>

datatype flotante = Finito real | Infinito | MenosInfinito | NoNumero

definition np_true_divide :: "nat \<Rightarrow> nat \<Rightarrow> flotante" where
  "np_true_divide a b =
     (if b = 0 then (if a = 0 then NoNumero else Infinito) else Finito (real a / real b))"

fun uno_menos :: "flotante \<Rightarrow> flotante" where
  "uno_menos (Finito x) = Finito (1 - x)"
| "uno_menos Infinito = MenosInfinito"
| "uno_menos MenosInfinito = Infinito"
| "uno_menos NoNumero = NoNumero"

fun por_cien :: "flotante \<Rightarrow> flotante" where
  "por_cien (Finito x) = Finito (x * 100)"
| "por_cien Infinito = Infinito"
| "por_cien MenosInfinito = MenosInfinito"
| "por_cien NoNumero = NoNumero"

text \<open>\<open>df[c].nunique()\<close>: the number of distinct non-null values of the column.\<close>

definition nunique :: "dataframe \<Rightarrow> cell \<Rightarrow> nat" where
  "nunique df c =
     length (remdups (filter (\<lambda>v. v \<noteq> NaN) (map (\<lambda>fila. celda (columns df) fila c) (rows df))))"

text \<open>\<open>df.isnull().sum().sum()\<close>: the number of null cells.\<close>

definition isnull_sum :: "dataframe \<Rightarrow> nat" where
  "isnull_sum df = sum_list (map (\<lambda>fila. length (filter (\<lambda>v. v = NaN) fila)) (rows df))"

record reporte =
  total_filas :: nat
  total_columnas :: nat
  cantones_unicos :: nat
  anios_unicos :: nat
  meses_unicos :: nat
  valores_faltantes :: nat
  porcentaje_completitud :: flotante

text \<open>
  The \<open>try\<close> block: the dictionary it builds, or the exception it raises. On a
  DataFrame none of its steps raises.
\<close>

definition construir_reporte :: "dataframe \<Rightarrow> py_error + reporte" where
  "construir_reporte df_final =
     Inr \<lparr>total_filas = length (rows df_final),
          total_columnas = length (columns df_final),
          cantones_unicos =
            (if Str ''canton'' \<in> set (columns df_final) then nunique df_final (Str ''canton'') else 0),
          anios_unicos =
            (if Str ''anio'' \<in> set (columns df_final) then nunique df_final (Str ''anio'') else 0),
          meses_unicos =
            (if Str ''mes'' \<in> set (columns df_final) then nunique df_final (Str ''mes'') else 0),
          valores_faltantes = isnull_sum df_final,
          porcentaje_completitud =
            por_cien (uno_menos (np_true_divide (isnull_sum df_final)
              (length (rows df_final) * length (columns df_final))))\<rparr>"

text \<open>
  The method: the report, or, when the block raises, the empty dictionary (\<open>None\<close>)
  after logging the error.
\<close>

definition generar_reporte_calidad :: "dataframe \<Rightarrow> reporte option" where
  "generar_reporte_calidad df_final =
     (case construir_reporte df_final of Inr reporte \<Rightarrow> Some reporte | Inl e \<Rightarrow> None)"

section \<open>An example folder\<close>




section \<open>Properties of the yield script\<close>

lemma map_of_asignar_otro:
  "\<forall>(i, m) \<in> set ims. k \<noteq> Str (m @ ''-produccion'') \<and> k \<noteq> Str (m @ ''-area'')
   \<Longrightarrow> map_of (asignar v ims d) k = map_of d k"
  by (induction v ims d rule: asignar.induct) (auto simp: Let_def update_conv')

lemma sufijos_distintos: "m @ ''-produccion'' \<noteq> m' @ ''-area''"
  by (auto dest: arg_cong [where f = last])

lemma map_of_asignar_produccion:
  "distinct (map snd ims) \<Longrightarrow> (i, m) \<in> set ims \<Longrightarrow>
   map_of (asignar v ims d) (Str (m @ ''-produccion'')) =
     (if i * 2 < length v then Some (v ! (i * 2)) else map_of d (Str (m @ ''-produccion'')))"
proof (induction v ims d rule: asignar.induct)
  case (1 valores d)
  then show ?case by simp
next
  case (2 valores i' mes resto d)
  show ?case
  proof (cases "(i, m) = (i', mes)")
    case True
    with "2.prems" have "\<forall>(j, m') \<in> set resto. m' \<noteq> mes"
      by (auto simp: image_iff)
    then have otro: "\<forall>(j, m') \<in> set resto.
        Str (mes @ ''-produccion'') \<noteq> Str (m' @ ''-produccion'') \<and>
        Str (mes @ ''-produccion'') \<noteq> Str (m' @ ''-area'')"
      by (auto simp: sufijos_distintos)
    show ?thesis using True
      by (simp add: Let_def map_of_asignar_otro [OF otro] update_conv' sufijos_distintos)
  next
    case False
    with "2.prems" have en: "(i, m) \<in> set resto" and dif: "m \<noteq> mes"
      by (auto simp: image_iff)
    from "2.prems" have dis: "distinct (map snd resto)" by simp
    show ?thesis
      using "2.IH" [OF refl refl dis en] dif
      by (simp add: Let_def update_conv' sufijos_distintos)
  qed
qed

lemma map_of_asignar_area:
  "distinct (map snd ims) \<Longrightarrow> (i, m) \<in> set ims \<Longrightarrow>
   map_of (asignar v ims d) (Str (m @ ''-area'')) =
     (if i * 2 + 1 < length v then Some (v ! (i * 2 + 1)) else map_of d (Str (m @ ''-area'')))"
proof (induction v ims d rule: asignar.induct)
  case (1 valores d)
  then show ?case by simp
next
  case (2 valores i' mes resto d)
  show ?case
  proof (cases "(i, m) = (i', mes)")
    case True
    with "2.prems" have "\<forall>(j, m') \<in> set resto. m' \<noteq> mes"
      by (auto simp: image_iff)
    then have otro: "\<forall>(j, m') \<in> set resto.
        Str (mes @ ''-area'') \<noteq> Str (m' @ ''-produccion'') \<and>
        Str (mes @ ''-area'') \<noteq> Str (m' @ ''-area'')"
      by (auto simp: sufijos_distintos [symmetric])
    show ?thesis using True
      by (simp add: Let_def map_of_asignar_otro [OF otro] update_conv' sufijos_distintos)
  next
    case False
    with "2.prems" have en: "(i, m) \<in> set resto" and dif: "m \<noteq> mes"
      by (auto simp: image_iff)
    from "2.prems" have dis: "distinct (map snd resto)" by simp
    show ?thesis
      using "2.IH" [OF refl refl dis en] dif
      by (simp add: Let_def update_conv' sufijos_distintos sufijos_distintos [symmetric])
  qed
qed

lemma length_meses: "length meses = 12"
  by (simp add: meses_def)

lemma distinct_meses: "distinct meses"
  by (simp add: meses_def)

lemma map_of_fila_resultado:
  assumes "p < 24"
  shows "map_of (fila_resultado pc v) (clave p) =
     (if p < length v then Some (v ! p) else map_of [(pc, Str ''Turrialba'')] (clave p))"
proof -
  have en: "(p div 2, meses ! (p div 2)) \<in> set (enumerate 0 meses)"
    using assms by (simp add: in_set_enumerate_eq length_meses)
  have dis: "distinct (map snd (enumerate 0 meses))"
    by (simp add: distinct_meses)
  show ?thesis
  proof (cases "even p")
    case True
    then have "p div 2 * 2 = p" by auto
    then show ?thesis
      using map_of_asignar_produccion [OF dis en, of v "[(pc, Str ''Turrialba'')]"] True
      by (simp add: fila_resultado_def clave_def)
  next
    case False
    then have "p div 2 * 2 + 1 = p" by presburger
    then show ?thesis
      using map_of_asignar_area [OF dis en, of v "[(pc, Str ''Turrialba'')]"] False
      by (simp add: fila_resultado_def clave_def)
  qed
qed


lemma claves_asignar:
  "fst ` set (asignar v ims d) =
     fst ` set d \<union>
     (\<Union>(i, m) \<in> set ims.
        (if i * 2 < length v then {Str (m @ ''-produccion'')} else {}) \<union>
        (if i * 2 + 1 < length v then {Str (m @ ''-area'')} else {}))"
  by (induction v ims d rule: asignar.induct) (auto simp: Let_def dom_update)

lemma claves_fila_resultado:
  "fst ` set (fila_resultado pc v) = insert pc (clave ` {p. p < 24 \<and> p < length v})"
proof -
  have "(\<Union>(i, m) \<in> set (enumerate 0 meses).
        (if i * 2 < length v then {Str (m @ ''-produccion'')} else {}) \<union>
        (if i * 2 + 1 < length v then {Str (m @ ''-area'')} else {}))
      = clave ` {p. p < 24 \<and> p < length v}" (is "?L = ?R")
  proof (rule set_eqI)
    fix k
    show "k \<in> ?L \<longleftrightarrow> k \<in> ?R"
    proof
      assume "k \<in> ?L"
      then obtain i where i: "i < 12"
        and k: "(i * 2 < length v \<and> k = Str (meses ! i @ ''-produccion'')) \<or>
                (i * 2 + 1 < length v \<and> k = Str (meses ! i @ ''-area''))"
        by (auto simp: in_set_enumerate_eq length_meses split: if_splits)
      from k show "k \<in> ?R"
      proof
        assume a: "i * 2 < length v \<and> k = Str (meses ! i @ ''-produccion'')"
        then have "k = clave (i * 2)" by (simp add: clave_def)
        moreover have "i * 2 < 24" using i by simp
        ultimately show ?thesis using a by blast
      next
        assume a: "i * 2 + 1 < length v \<and> k = Str (meses ! i @ ''-area'')"
        then have "k = clave (i * 2 + 1)" by (simp add: clave_def)
        moreover have "i * 2 + 1 < 24" using i by simp
        ultimately show ?thesis using a by blast
      qed
    next
      assume "k \<in> ?R"
      then obtain p where p: "p < 24" "p < length v" "k = clave p" by auto
      then have en: "(p div 2, meses ! (p div 2)) \<in> set (enumerate 0 meses)"
        by (simp add: in_set_enumerate_eq length_meses)
      show "k \<in> ?L"
      proof (cases "even p")
        case True
        then have "p div 2 * 2 = p" by auto
        with p True en show ?thesis
          by (auto simp: clave_def intro!: bexI [OF _ en])
      next
        case False
        then have "p div 2 * 2 + 1 = p" by presburger
        with p False en show ?thesis
          by (auto simp: clave_def intro!: bexI [OF _ en])
      qed
    qed
  qed
  then show ?thesis
    by (simp add: fila_resultado_def claves_asignar)
qed

lemma nth_filter_take:
  "j < length xs \<Longrightarrow> P (xs ! j) \<Longrightarrow> filter P xs ! length (filter P (take j xs)) = xs ! j"
proof -
  assume j: "j < length xs" and P: "P (xs ! j)"
  have "xs = take j xs @ xs ! j # drop (Suc j) xs"
    using j by (rule id_take_nth_drop)
  then have "filter P xs = filter P (take j xs) @ xs ! j # filter P (drop (Suc j) xs)"
    using P by (metis filter.simps(2) filter_append)
  then show ?thesis by simp
qed

lemma length_filter_take_less:
  assumes "k < j" "j \<le> length xs" "\<not> P (xs ! k)"
  shows "length (filter P (take j xs)) < j"
proof -
  let ?ys = "take j xs"
  have k: "k < length ?ys" using assms by simp
  have "?ys = take k ?ys @ ?ys ! k # drop (Suc k) ?ys"
    using k by (rule id_take_nth_drop)
  then have "filter P ?ys = filter P (take k ?ys) @ filter P (drop (Suc k) ?ys)"
    using assms by (metis filter.simps(2) filter_append nth_take)
  then have "length (filter P ?ys) \<le> length (take k ?ys) + length (drop (Suc k) ?ys)"
    by (metis length_append add_mono length_filter_le)
  then show ?thesis using assms by simp
qed

lemma length_filter_take_less2:
  assumes "Suc k < j" "j \<le> length xs" "\<not> P (xs ! k)" "\<not> P (xs ! Suc k)"
  shows "length (filter P (take j xs)) + 2 \<le> j"
proof -
  let ?ys = "take j xs"
  have k: "k < length ?ys" "Suc k < length ?ys" using assms by simp_all
  have "?ys = take k ?ys @ ?ys ! k # drop (Suc k) ?ys"
    using k(1) by (rule id_take_nth_drop)
  moreover have "drop (Suc k) ?ys = ?ys ! Suc k # drop (Suc (Suc k)) ?ys"
    using k(2) by (metis Cons_nth_drop_Suc)
  ultimately have "?ys = take k ?ys @ ?ys ! k # ?ys ! Suc k # drop (Suc (Suc k)) ?ys"
    by simp
  then have "filter P ?ys = filter P (take k ?ys) @ filter P (drop (Suc (Suc k)) ?ys)"
    using assms by (metis filter.simps(2) filter_append nth_take Suc_lessD)
  then have "length (filter P ?ys) \<le> length (take k ?ys) + length (drop (Suc (Suc k)) ?ys)"
    by (metis length_append add_mono length_filter_le)
  then show ?thesis using assms by simp
qed

lemma cuenta_pares: "length (filter (\<lambda>i. 2 * i < N) [0..<n]) = min n ((N + 1) div 2)"
  by (induction n) auto


lemma length_filter_take_lt:
  "j < length xs \<Longrightarrow> P (xs ! j) \<Longrightarrow> length (filter P (take j xs)) < length (filter P xs)"
proof -
  assume j: "j < length xs" and P: "P (xs ! j)"
  have "xs = take j xs @ xs ! j # drop (Suc j) xs"
    using j by (rule id_take_nth_drop)
  then have "filter P xs = filter P (take j xs) @ xs ! j # filter P (drop (Suc j) xs)"
    using P by (metis filter.simps(2) filter_append)
  then show ?thesis by simp
qed

lemma clave_par: "clave (2 * i) = Str (meses ! i @ ''-produccion'')"
  by (simp add: clave_def)

lemma clave_impar: "clave (2 * i + 1) = Str (meses ! i @ ''-area'')"
  by (simp add: clave_def)

lemma fila_resultado_produccion:
  "i < 12 \<Longrightarrow>
   map_of (fila_resultado pc v) (Str (meses ! i @ ''-produccion'')) =
     (if 2 * i < length v then Some (v ! (2 * i))
      else map_of [(pc, Str ''Turrialba'')] (Str (meses ! i @ ''-produccion'')))"
  using map_of_fila_resultado [of "2 * i" pc v] by (simp add: clave_par)

lemma fila_resultado_area:
  "i < 12 \<Longrightarrow>
   map_of (fila_resultado pc v) (Str (meses ! i @ ''-area'')) =
     (if 2 * i + 1 < length v then Some (v ! (2 * i + 1))
      else map_of [(pc, Str ''Turrialba'')] (Str (meses ! i @ ''-area'')))"
  using map_of_fila_resultado [of "2 * i + 1" pc v] clave_impar [of i] by simp

lemma fila_resultado_ultimo:
  assumes "odd (length v)" "length v < 24"
    and "pc \<noteq> Str (meses ! (length v div 2) @ ''-area'')"
  shows "map_of (fila_resultado pc v) (Str (meses ! (length v div 2) @ ''-produccion'')) =
           Some (v ! (length v - 1)) \<and>
         map_of (fila_resultado pc v) (Str (meses ! (length v div 2) @ ''-area'')) = None"
proof -
  from assms have i: "length v div 2 < 12" by simp
  from assms have e: "2 * (length v div 2) = length v - 1" by presburger
  from assms have lt: "2 * (length v div 2) < length v" by presburger
  from assms have ge: "\<not> 2 * (length v div 2) + 1 < length v" by presburger
  show ?thesis
    using fila_resultado_produccion [OF i, of pc v] fila_resultado_area [OF i, of pc v]
      lt ge e assms(3) by simp
qed


text \<open>
  Claim C2, as the code does it. The dictionary of a row holds the first column and the
  keys of the slots \<open>p < 24\<close> that the value list reaches, nothing else. For each of the
  twelve months \<open>i < 12\<close>, \<open>valores[2i]\<close> is the month's production when \<open>2i < N\<close> and
  \<open>valores[2i+1]\<close> its area when \<open>2i+1 < N\<close>; a key that is not assigned keeps what the
  initial dictionary has under it (nothing, unless the first column bears that name).
  When \<open>N\<close> is odd and below 24, the last month reached has its production and no area.
  The loop runs over the twelve month names only, so values from the 25th on are never
  assigned.
\<close>

theorem yield_values_paired_over_twelve_months:
  "fst ` set (fila_resultado pc (valores_de fila)) =
     insert pc (clave ` {p. p < 24 \<and> p < length (valores_de fila)}) \<and>
   (\<forall>i<12.
      map_of (fila_resultado pc (valores_de fila)) (Str (meses ! i @ ''-produccion'')) =
        (if 2 * i < length (valores_de fila) then Some (valores_de fila ! (2 * i))
         else map_of [(pc, Str ''Turrialba'')] (Str (meses ! i @ ''-produccion''))) \<and>
      map_of (fila_resultado pc (valores_de fila)) (Str (meses ! i @ ''-area'')) =
        (if 2 * i + 1 < length (valores_de fila) then Some (valores_de fila ! (2 * i + 1))
         else map_of [(pc, Str ''Turrialba'')] (Str (meses ! i @ ''-area'')))) \<and>
   (odd (length (valores_de fila)) \<and> length (valores_de fila) < 24 \<and>
    pc \<noteq> Str (meses ! (length (valores_de fila) div 2) @ ''-area'') \<longrightarrow>
      map_of (fila_resultado pc (valores_de fila))
        (Str (meses ! (length (valores_de fila) div 2) @ ''-produccion'')) =
          Some (valores_de fila ! (length (valores_de fila) - 1)) \<and>
      map_of (fila_resultado pc (valores_de fila))
        (Str (meses ! (length (valores_de fila) div 2) @ ''-area'')) = None)"
proof (intro conjI allI impI)
  show "fst ` set (fila_resultado pc (valores_de fila)) =
     insert pc (clave ` {p. p < 24 \<and> p < length (valores_de fila)})"
    by (rule claves_fila_resultado)
next
  fix i :: nat
  assume "i < 12"
  then show "map_of (fila_resultado pc (valores_de fila)) (Str (meses ! i @ ''-produccion'')) =
        (if 2 * i < length (valores_de fila) then Some (valores_de fila ! (2 * i))
         else map_of [(pc, Str ''Turrialba'')] (Str (meses ! i @ ''-produccion'')))"
    by (rule fila_resultado_produccion)
next
  fix i :: nat
  assume "i < 12"
  then show "map_of (fila_resultado pc (valores_de fila)) (Str (meses ! i @ ''-area'')) =
        (if 2 * i + 1 < length (valores_de fila) then Some (valores_de fila ! (2 * i + 1))
         else map_of [(pc, Str ''Turrialba'')] (Str (meses ! i @ ''-area'')))"
    by (rule fila_resultado_area)
next
  assume a: "odd (length (valores_de fila)) \<and> length (valores_de fila) < 24 \<and>
    pc \<noteq> Str (meses ! (length (valores_de fila) div 2) @ ''-area'')"
  then have a1: "odd (length (valores_de fila))" and a2: "length (valores_de fila) < 24"
    and a3: "pc \<noteq> Str (meses ! (length (valores_de fila) div 2) @ ''-area'')"
    by blast+
  note u = fila_resultado_ultimo [OF a1 a2 a3]
  from u show "map_of (fila_resultado pc (valores_de fila))
        (Str (meses ! (length (valores_de fila) div 2) @ ''-produccion'')) =
          Some (valores_de fila ! (length (valores_de fila) - 1))" ..
  from u show "map_of (fila_resultado pc (valores_de fila))
        (Str (meses ! (length (valores_de fila) div 2) @ ''-area'')) = None" ..
qed

theorem yield_values_paired_witness:
  "(1::nat) < 12 \<and>
   odd (length (valores_de [Str ''Turrialba'', Num 10, NaN, Num 20, Num 30])) \<and>
   valores_de [Str ''Turrialba'', Num 10, NaN, Num 20, Num 30] = [Num 10, Num 20, Num 30] \<and>
   map_of (fila_resultado (Str ''Canton'')
       (valores_de [Str ''Turrialba'', Num 10, NaN, Num 20, Num 30]))
     (Str ''febrero-produccion'') = Some (Num 30) \<and>
   map_of (fila_resultado (Str ''Canton'')
       (valores_de [Str ''Turrialba'', Num 10, NaN, Num 20, Num 30]))
     (Str ''febrero-area'') = None"
proof -
  have v: "valores_de [Str ''Turrialba'', Num 10, NaN, Num 20, Num 30] = [Num 10, Num 20, Num 30]"
    by (simp add: valores_de_def dropna_def)
  have m: "meses ! Suc 0 = ''febrero''"
    by (simp add: meses_def)
  show ?thesis
    using yield_values_paired_over_twelve_months
      [of "Str ''Canton''" "[Str ''Turrialba'', Num 10, NaN, Num 20, Num 30]"]
    by (simp add: v m)
qed

text \<open>
  A row with 25 non-null values: the 25th is in the value list and in no cell of the
  result, and the last month, diciembre, has an area although the count is odd.
\<close>

theorem yield_pairing_counterexample:
  "length (valores_de (Str ''Turrialba'' # map (\<lambda>n. Num (real n)) [1..<26])) = 25 \<and>
   Num 25 \<in> set (valores_de (Str ''Turrialba'' # map (\<lambda>n. Num (real n)) [1..<26])) \<and>
   Num 25 \<notin> snd ` set (fila_resultado (Str ''Canton'')
       (valores_de (Str ''Turrialba'' # map (\<lambda>n. Num (real n)) [1..<26]))) \<and>
   map_of (fila_resultado (Str ''Canton'')
       (valores_de (Str ''Turrialba'' # map (\<lambda>n. Num (real n)) [1..<26])))
     (Str ''diciembre-area'') = Some (Num 24)"
  by (simp add: valores_de_def dropna_def fila_resultado_def meses_def upt_conv_Cons Let_def)


lemma guion_en_clave: "clave p = Str s \<Longrightarrow> CHR ''-'' \<in> set s"
  by (auto simp: clave_def)

text \<open>
  Claim C3. A valid row has at most 24 non-null values (twelve months, two metrics
  each) and a first column that is not named like a month key. Then the months that
  receive a production value number \<open>\<lceil>N / 2\<rceil>\<close>, and when \<open>N\<close> is odd the last of
  them has its production and no area.
\<close>

theorem yield_row_record_count:
  assumes valida: "length (valores_de fila) \<le> 24"
    and encabezado: "pc \<notin> clave ` {..<24}"
  shows "length (filter (\<lambda>mes. map_of (fila_resultado pc (valores_de fila))
             (Str (mes @ ''-produccion'')) \<noteq> None) meses) =
           (length (valores_de fila) + 1) div 2 \<and>
         (odd (length (valores_de fila)) \<longrightarrow>
            map_of (fila_resultado pc (valores_de fila))
              (Str (meses ! (length (valores_de fila) div 2) @ ''-produccion'')) =
                Some (valores_de fila ! (length (valores_de fila) - 1)) \<and>
            map_of (fila_resultado pc (valores_de fila))
              (Str (meses ! (length (valores_de fila) div 2) @ ''-area'')) = None)"
proof -
  let ?v = "valores_de fila"
  let ?d = "fila_resultado pc ?v"
  let ?P = "\<lambda>mes. map_of ?d (Str (mes @ ''-produccion'')) \<noteq> None"
  have presente: "?P (meses ! i) \<longleftrightarrow> 2 * i < length ?v" if "i < 12" for i
  proof -
    from that have "2 * i < 24" by simp
    with encabezado have "pc \<noteq> clave (2 * i)" by blast
    then show ?thesis
      using map_of_fila_resultado [of "2 * i" pc ?v] that by (simp add: clave_par)
  qed
  have eq: "map ((!) meses) [0..<12] = meses"
    using map_nth [of meses] by (simp only: length_meses)
  have "length (filter ?P meses) = length (filter ?P (map ((!) meses) [0..<12]))"
    by (simp only: eq)
  also have "\<dots> = length (filter (\<lambda>i. ?P (meses ! i)) [0..<12])"
    by (simp only: filter_map comp_def length_map)
  also have "filter (\<lambda>i. ?P (meses ! i)) [0..<12] = filter (\<lambda>i. 2 * i < length ?v) [0..<12]"
  proof (rule filter_cong)
    fix i :: nat
    assume "i \<in> set [0..<12]"
    then have "i < 12" by (simp del: upt_rec_numeral)
    then show "?P (meses ! i) = (2 * i < length ?v)" by (rule presente)
  qed (rule refl)
  also have "length \<dots> = min 12 ((length ?v + 1) div 2)"
    by (rule cuenta_pares)
  also have "\<dots> = (length ?v + 1) div 2"
    using valida by simp
  finally have cuenta: "length (filter ?P meses) = (length ?v + 1) div 2" .
  have ultimo: "map_of ?d (Str (meses ! (length ?v div 2) @ ''-produccion'')) =
          Some (?v ! (length ?v - 1)) \<and>
      map_of ?d (Str (meses ! (length ?v div 2) @ ''-area'')) = None"
    if impar: "odd (length ?v)"
  proof -
    from impar valida have lt: "length ?v < 24" by presburger
    with impar have "2 * (length ?v div 2) + 1 < 24" by presburger
    with encabezado have "pc \<noteq> clave (2 * (length ?v div 2) + 1)" by blast
    then have "pc \<noteq> Str (meses ! (length ?v div 2) @ ''-area'')"
      unfolding clave_impar .
    with fila_resultado_ultimo [of ?v pc] impar lt show ?thesis by blast
  qed
  from cuenta ultimo show ?thesis by blast
qed


theorem yield_row_record_count_witness:
  "length (valores_de [Str ''Turrialba'', Num 10, NaN, Num 20, Num 30]) \<le> 24 \<and>
   Str ''Canton'' \<notin> clave ` {..<24} \<and>
   length (filter (\<lambda>mes. map_of (fila_resultado (Str ''Canton'')
              (valores_de [Str ''Turrialba'', Num 10, NaN, Num 20, Num 30]))
             (Str (mes @ ''-produccion'')) \<noteq> None) meses) = 2 \<and>
   map_of (fila_resultado (Str ''Canton'')
       (valores_de [Str ''Turrialba'', Num 10, NaN, Num 20, Num 30]))
     (Str ''febrero-area'') = None"
proof -
  let ?fila = "[Str ''Turrialba'', Num 10, NaN, Num 20, Num 30]"
  have v: "valores_de ?fila = [Num 10, Num 20, Num 30]"
    by (simp add: valores_de_def dropna_def)
  have h1: "length (valores_de ?fila) \<le> 24"
    by (simp add: v)
  have h2: "Str ''Canton'' \<notin> clave ` {..<24}"
  proof
    assume "Str ''Canton'' \<in> clave ` {..<24}"
    then obtain p where "clave p = Str ''Canton''" by auto
    then have "CHR ''-'' \<in> set ''Canton''" by (rule guion_en_clave)
    then show False by simp
  qed
  have m: "meses ! Suc 0 = ''febrero''"
    by (simp add: meses_def)
  show ?thesis
    using yield_row_record_count [OF h1 h2] h1 h2 by (simp add: v m)
qed

text \<open>
  Claim C4. No null cell survives in the value list, wherever it stood in the row. A
  non-null cell at position \<open>j\<close> (after the first column) that has a null cell before it
  lands in slot \<open>p < j\<close>, where \<open>p\<close> counts the non-null cells before \<open>j\<close>, and is assigned
  to the key of slot \<open>p\<close>; when two neighbouring cells before it are null (a whole month
  missing) it lands in a strictly earlier month.
\<close>

theorem yield_nulls_dropped_anywhere:
  assumes j: "j < length (drop 1 fila)" and valor: "drop 1 fila ! j \<noteq> NaN"
    and k: "k < j" and nulo: "drop 1 fila ! k = NaN"
  shows "NaN \<notin> set (valores_de fila) \<and>
         length (dropna (take j (drop 1 fila))) < j \<and>
         valores_de fila ! length (dropna (take j (drop 1 fila))) = drop 1 fila ! j \<and>
         (length (dropna (take j (drop 1 fila))) < 24 \<longrightarrow>
            map_of (fila_resultado pc (valores_de fila))
              (clave (length (dropna (take j (drop 1 fila))))) = Some (drop 1 fila ! j)) \<and>
         (Suc k < j \<and> drop 1 fila ! Suc k = NaN \<longrightarrow>
            length (dropna (take j (drop 1 fila))) div 2 < j div 2)"
proof -
  let ?xs = "drop 1 fila"
  let ?P = "\<lambda>c. c \<noteq> NaN"
  let ?p = "length (dropna (take j ?xs))"
  have sin_nulos: "NaN \<notin> set (valores_de fila)"
    by (simp add: valores_de_def dropna_def)
  have antes: "?p < j"
    unfolding dropna_def using k j nulo
    by (intro length_filter_take_less [where k = k]) simp_all
  have pos: "valores_de fila ! ?p = ?xs ! j"
    unfolding valores_de_def dropna_def using j valor by (rule nth_filter_take)
  have dentro: "?p < length (valores_de fila)"
    unfolding valores_de_def dropna_def using j valor by (rule length_filter_take_lt)
  have asignado: "map_of (fila_resultado pc (valores_de fila)) (clave ?p) = Some (?xs ! j)"
    if "?p < 24"
    using map_of_fila_resultado [OF that, of pc "valores_de fila"] dentro pos by simp
  have mes_anterior: "?p div 2 < j div 2" if "Suc k < j" "?xs ! Suc k = NaN"
  proof -
    have "?p + 2 \<le> j"
      unfolding dropna_def using that j nulo
      by (intro length_filter_take_less2 [where k = k]) simp_all
    then show ?thesis by presburger
  qed
  from sin_nulos antes pos asignado mes_anterior show ?thesis by blast
qed

theorem yield_nulls_dropped_anywhere_witness:
  "(4::nat) < length (drop 1 [Str ''Turrialba'', Num 10, Num 11, NaN, NaN, Num 30, Num 31]) \<and>
   drop 1 [Str ''Turrialba'', Num 10, Num 11, NaN, NaN, Num 30, Num 31] ! 4 = Num 30 \<and>
   drop 1 [Str ''Turrialba'', Num 10, Num 11, NaN, NaN, Num 30, Num 31] ! 2 = NaN \<and>
   drop 1 [Str ''Turrialba'', Num 10, Num 11, NaN, NaN, Num 30, Num 31] ! 3 = NaN \<and>
   length (dropna (take 4 (drop 1
     [Str ''Turrialba'', Num 10, Num 11, NaN, NaN, Num 30, Num 31]))) = 2 \<and>
   clave 2 = Str ''febrero-produccion'' \<and>
   map_of (fila_resultado (Str ''Canton'')
       (valores_de [Str ''Turrialba'', Num 10, Num 11, NaN, NaN, Num 30, Num 31]))
     (clave 2) = Some (Num 30)"
proof -
  let ?fila = "[Str ''Turrialba'', Num 10, Num 11, NaN, NaN, Num 30, Num 31]"
  have h1: "4 < length (drop 1 ?fila)" by simp
  have h2: "drop 1 ?fila ! 4 \<noteq> NaN" by simp
  have h3: "(2::nat) < 4" by simp
  have h4: "drop 1 ?fila ! 2 = NaN" by simp
  have p: "length (dropna (take 4 (drop 1 ?fila))) = 2"
    by (simp add: dropna_def)
  have c: "clave 2 = Str ''febrero-produccion''"
    by (simp add: clave_def meses_def)
  show ?thesis
    using yield_nulls_dropped_anywhere [OF h1 h2 h3 h4, of "Str ''Canton''"]
    by (simp add: dropna_def c c [simplified numeral_2_eq_2 [symmetric]] numeral_2_eq_2 [symmetric])
qed

section \<open>Properties of the atmospheric parser and of the batch loader\<close>

lemma buscar_encabezado_None:
  "buscar_encabezado i ls = None \<longleftrightarrow>
     \<not> (\<exists>l \<in> set ls. startswith (strip l) ''PARAMETER,YEAR'')"
  by (induction ls arbitrary: i) auto

lemma buscar_encabezado_Some:
  "buscar_encabezado i ls = Some k \<Longrightarrow>
     i \<le> k \<and> k - i < length ls \<and> startswith (strip (ls ! (k - i))) ''PARAMETER,YEAR'' \<and>
     (\<forall>j < k - i. \<not> startswith (strip (ls ! j)) ''PARAMETER,YEAR'')"
proof (induction ls arbitrary: i)
  case Nil
  then show ?case by simp
next
  case (Cons l ls)
  show ?case
  proof (cases "startswith (strip l) ''PARAMETER,YEAR''")
    case True
    with Cons.prems show ?thesis by simp
  next
    case False
    with Cons.prems have "buscar_encabezado (Suc i) ls = Some k" by simp
    from Cons.IH [OF this] have ih: "Suc i \<le> k" "k - Suc i < length ls"
      "startswith (strip (ls ! (k - Suc i))) ''PARAMETER,YEAR''"
      "\<forall>j < k - Suc i. \<not> startswith (strip (ls ! j)) ''PARAMETER,YEAR''"
      by blast+
    from ih(1) have e: "k - i = Suc (k - Suc i)" by simp
    have "\<not> startswith (strip ((l # ls) ! j)) ''PARAMETER,YEAR''" if "j < k - i" for j
      using that False ih(4) e by (cases j) auto
    with ih e show ?thesis by auto
  qed
qed

lemma buscar_encabezado_primero:
  assumes "i < length ls" "startswith (strip (ls ! i)) ''PARAMETER,YEAR''"
    and "\<forall>j<i. \<not> startswith (strip (ls ! j)) ''PARAMETER,YEAR''"
  shows "buscar_encabezado 0 ls = Some i"
proof (cases "buscar_encabezado 0 ls")
  case None
  with assms(1,2) show ?thesis
    by (auto simp: buscar_encabezado_None)
next
  case (Some k)
  from buscar_encabezado_Some [OF Some]
  have k: "k < length ls" "startswith (strip (ls ! k)) ''PARAMETER,YEAR''"
    "\<forall>j<k. \<not> startswith (strip (ls ! j)) ''PARAMETER,YEAR''" by auto
  have "k = i"
  proof (rule ccontr)
    assume "k \<noteq> i"
    then consider "k < i" | "i < k" by linarith
    then show False using assms k by cases auto
  qed
  with Some show ?thesis by simp
qed

lemma recorrer_omite:
  "(\<exists>e. leer archivo = Inl e) \<Longrightarrow>
   recorrer leer (pre @ archivo # post) estado = recorrer leer (pre @ post) estado"
  by (induction leer pre estado rule: recorrer.induct) (auto split: sum.splits)















lemma transformar_no_SinEncabezado: "transformar parse canton df \<noteq> Inl SinEncabezado"
  by (simp add: transformar_def split: option.splits)

text \<open>
  Claim C5. The parse of a file that was read ends with the missing-header failure
  exactly when no line, once trimmed, starts with \<open>PARAMETER,YEAR\<close>. Otherwise the scan
  stops at the first such line, the reader is handed the lines of the file from that
  line on, so that line is the header of the table, and the result is that of the rest
  of the method on the table read. A file without a header line is left out by the
  loop of the batch loader, which goes on with the files that follow.
\<close>

theorem header_is_first_marker_line:
  "(leer_archivo read_csv parse (Some lineas) canton = Inl SinEncabezado \<longleftrightarrow>
      \<not> (\<exists>linea \<in> set lineas. startswith (strip linea) ''PARAMETER,YEAR'')) \<and>
   (\<forall>i. i < length lineas \<and> startswith (strip (lineas ! i)) ''PARAMETER,YEAR'' \<and>
        (\<forall>j<i. \<not> startswith (strip (lineas ! j)) ''PARAMETER,YEAR'') \<longrightarrow>
        buscar_encabezado 0 lineas = Some i \<and> hd (drop i lineas) = lineas ! i \<and>
        leer_archivo read_csv parse (Some lineas) canton =
          (case read_csv (drop i lineas) of
             None \<Rightarrow> Inl ErrorProcesando
           | Some df \<Rightarrow> transformar parse canton df)) \<and>
   (\<forall>fs archivo pre post estado.
        fs archivo = Some lineas \<and>
        \<not> (\<exists>linea \<in> set lineas. startswith (strip linea) ''PARAMETER,YEAR'') \<longrightarrow>
        recorrer (leer_en read_csv parse fs) (pre @ archivo # post) estado =
        recorrer (leer_en read_csv parse fs) (pre @ post) estado)"
proof (intro conjI allI impI)
  show "leer_archivo read_csv parse (Some lineas) canton = Inl SinEncabezado \<longleftrightarrow>
      \<not> (\<exists>linea \<in> set lineas. startswith (strip linea) ''PARAMETER,YEAR'')"
  proof (cases "buscar_encabezado 0 lineas")
    case None
    then show ?thesis
      using buscar_encabezado_None [of 0 lineas] by (simp add: leer_archivo_def)
  next
    case (Some i)
    then have "\<exists>linea \<in> set lineas. startswith (strip linea) ''PARAMETER,YEAR''"
      using buscar_encabezado_None [of 0 lineas] by simp
    then show ?thesis
      using Some by (simp add: leer_archivo_def transformar_no_SinEncabezado split: option.splits)
  qed
next
  fix i
  assume a: "i < length lineas \<and> startswith (strip (lineas ! i)) ''PARAMETER,YEAR'' \<and>
        (\<forall>j<i. \<not> startswith (strip (lineas ! j)) ''PARAMETER,YEAR'')"
  then have b: "buscar_encabezado 0 lineas = Some i"
    using buscar_encabezado_primero [of i lineas] by blast
  then show "buscar_encabezado 0 lineas = Some i" .
  from a show "hd (drop i lineas) = lineas ! i"
    by (simp add: hd_drop_conv_nth)
  from b show "leer_archivo read_csv parse (Some lineas) canton =
          (case read_csv (drop i lineas) of
             None \<Rightarrow> Inl ErrorProcesando
           | Some df \<Rightarrow> transformar parse canton df)"
    by (simp add: leer_archivo_def)
next
  fix fs :: "string \<Rightarrow> string list option" and archivo :: string
    and pre post :: "string list" and estado :: "dataframe list \<times> nat"
  assume a: "fs archivo = Some lineas \<and>
        \<not> (\<exists>linea \<in> set lineas. startswith (strip linea) ''PARAMETER,YEAR'')"
  then have "buscar_encabezado 0 lineas = None"
    using buscar_encabezado_None [of 0 lineas] by blast
  with a have "leer_en read_csv parse fs archivo = Inl SinEncabezado"
    by (simp add: leer_en_def leer_archivo_def)
  then have "\<exists>e. leer_en read_csv parse fs archivo = Inl e" by blast
  then show "recorrer (leer_en read_csv parse fs) (pre @ archivo # post) estado =
        recorrer (leer_en read_csv parse fs) (pre @ post) estado"
    by (rule recorrer_omite)
qed


theorem header_is_first_marker_line_witness:
  "(1::nat) < length [''-BEGIN HEADER-'', '' PARAMETER,YEAR,JAN'', ''PARAMETER,YEAR,FEB''] \<and>
   startswith (strip ([''-BEGIN HEADER-'', '' PARAMETER,YEAR,JAN'', ''PARAMETER,YEAR,FEB''] ! 1))
     ''PARAMETER,YEAR'' \<and>
   \<not> startswith (strip ([''-BEGIN HEADER-'', '' PARAMETER,YEAR,JAN'', ''PARAMETER,YEAR,FEB''] ! 0))
     ''PARAMETER,YEAR'' \<and>
   buscar_encabezado 0 [''-BEGIN HEADER-'', '' PARAMETER,YEAR,JAN'', ''PARAMETER,YEAR,FEB'']
     = Some 1 \<and>
   leer_archivo (\<lambda>_. None) (\<lambda>_. None) (Some [''-BEGIN HEADER-'', ''-END HEADER-'']) ''x''
     = Inl SinEncabezado"
proof -
  let ?L = "[''-BEGIN HEADER-'', '' PARAMETER,YEAR,JAN'', ''PARAMETER,YEAR,FEB'']"
  have h1: "(1::nat) < length ?L" by simp
  have h2: "startswith (strip (?L ! 1)) ''PARAMETER,YEAR''"
    by (simp add: startswith_def strip_def isspace_def)
  have h3: "\<not> startswith (strip (?L ! 0)) ''PARAMETER,YEAR''"
    by (simp add: startswith_def strip_def isspace_def)
  then have h4: "\<forall>j<1. \<not> startswith (strip (?L ! j)) ''PARAMETER,YEAR''" by simp
  have h5: "\<not> (\<exists>linea \<in> set [''-BEGIN HEADER-'', ''-END HEADER-''].
               startswith (strip linea) ''PARAMETER,YEAR'')"
    by (simp add: startswith_def strip_def isspace_def)
  have a: "buscar_encabezado 0 ?L = Some 1"
    using header_is_first_marker_line [of "\<lambda>_. None" "\<lambda>_. None" ?L "''x''"] h1 h2 h4
    by blast
  have b: "leer_archivo (\<lambda>_. None) (\<lambda>_. None) (Some [''-BEGIN HEADER-'', ''-END HEADER-'']) ''x''
     = Inl SinEncabezado"
    using header_is_first_marker_line
      [of "\<lambda>_. None" "\<lambda>_. None" "[''-BEGIN HEADER-'', ''-END HEADER-'']" "''x''"] h5
    by blast
  from h1 h2 h3 a b show ?thesis by blast
qed

lemma columnas_faltantes_set:
  "set (columnas_faltantes df) = {col \<in> set columnas_necesarias. Str col \<notin> set (columns df)}"
  by (auto simp: columnas_faltantes_def)

text \<open>
  Claim C6, as the code does it. When the table read lacks a required column, the
  parse fails: as an empty table when the table has no data row (that test comes
  first), and otherwise with the missing-columns failure that names the required
  columns the table lacks, in the order of the list of required columns. In both cases
  the loop of the batch loader leaves the file out and goes on with the others.
\<close>

theorem missing_columns_reported_and_file_skipped:
  assumes "buscar_encabezado 0 lineas = Some i" and "read_csv (drop i lineas) = Some df"
    and "columnas_faltantes df \<noteq> []"
  shows "leer_archivo read_csv parse (Some lineas) canton =
           (if empty_df df then Inl TablaVacia
            else Inl (ColumnasFaltantes (columnas_faltantes df))) \<and>
         set (columnas_faltantes df) =
           {col \<in> set columnas_necesarias. Str col \<notin> set (columns df)} \<and>
         (\<forall>fs archivo pre post estado.
            fs archivo = Some lineas \<longrightarrow>
            recorrer (leer_en read_csv parse fs) (pre @ archivo # post) estado =
            recorrer (leer_en read_csv parse fs) (pre @ post) estado)"
proof (intro conjI allI impI)
  show r: "leer_archivo read_csv parse (Some lineas) canton =
           (if empty_df df then Inl TablaVacia
            else Inl (ColumnasFaltantes (columnas_faltantes df)))" for canton
    using assms by (simp add: leer_archivo_def transformar_def)
  show "set (columnas_faltantes df) =
           {col \<in> set columnas_necesarias. Str col \<notin> set (columns df)}"
    by (rule columnas_faltantes_set)
  fix fs :: "string \<Rightarrow> string list option" and archivo :: string
    and pre post :: "string list" and estado :: "dataframe list \<times> nat"
  assume "fs archivo = Some lineas"
  then have "\<exists>e. leer_en read_csv parse fs archivo = Inl e"
    using r [of "splitext_root archivo"] by (simp add: leer_en_def)
  then show "recorrer (leer_en read_csv parse fs) (pre @ archivo # post) estado =
        recorrer (leer_en read_csv parse fs) (pre @ post) estado"
    by (rule recorrer_omite)
qed

theorem missing_columns_witness:
  "buscar_encabezado 0 [''PARAMETER,YEAR,JAN'', ''T2M,2020,21.5''] = Some 0 \<and>
   columnas_faltantes \<lparr>columns = [Str ''PARAMETER'', Str ''YEAR'', Str ''JAN''],
                        rows = [[Str ''T2M'', Num 2020, Num 21.5]]\<rparr> =
     [''FEB'', ''MAR'', ''APR'', ''MAY'', ''JUN'', ''JUL'', ''AUG'', ''SEP'', ''OCT'', ''NOV'', ''DEC''] \<and>
   leer_archivo
     (\<lambda>_. Some \<lparr>columns = [Str ''PARAMETER'', Str ''YEAR'', Str ''JAN''],
                 rows = [[Str ''T2M'', Num 2020, Num 21.5]]\<rparr>)
     (\<lambda>_. None) (Some [''PARAMETER,YEAR,JAN'', ''T2M,2020,21.5'']) ''turrialba'' =
     Inl (ColumnasFaltantes
       [''FEB'', ''MAR'', ''APR'', ''MAY'', ''JUN'', ''JUL'', ''AUG'', ''SEP'', ''OCT'', ''NOV'', ''DEC''])"
proof -
  let ?df = "\<lparr>columns = [Str ''PARAMETER'', Str ''YEAR'', Str ''JAN''],
              rows = [[Str ''T2M'', Num 2020, Num 21.5]]\<rparr>"
  let ?L = "[''PARAMETER,YEAR,JAN'', ''T2M,2020,21.5'']"
  have h1: "buscar_encabezado 0 ?L = Some 0"
    by (simp add: startswith_def strip_def isspace_def)
  have h2: "(\<lambda>_. Some ?df) (drop 0 ?L) = Some ?df" by simp
  have f: "columnas_faltantes ?df =
     [''FEB'', ''MAR'', ''APR'', ''MAY'', ''JUN'', ''JUL'', ''AUG'', ''SEP'', ''OCT'', ''NOV'', ''DEC'']"
    by (simp add: columnas_faltantes_def columnas_necesarias_def)
  then have h3: "columnas_faltantes ?df \<noteq> []" by simp
  have e: "\<not> empty_df ?df" by (simp add: empty_df_def)
  show ?thesis
    using missing_columns_reported_and_file_skipped
      [OF h1 h2 h3, of "\<lambda>_. None" "''turrialba''"] h1 f e
    by simp
qed

text \<open>
  A file that holds the header line \<open>PARAMETER,YEAR\<close> and no data row: its table lacks
  the twelve month columns, and the failure is the one of the empty table.
\<close>

theorem missing_columns_counterexample:
  "columnas_faltantes \<lparr>columns = [Str ''PARAMETER'', Str ''YEAR''], rows = []\<rparr> =
     [''JAN'', ''FEB'', ''MAR'', ''APR'', ''MAY'', ''JUN'', ''JUL'', ''AUG'', ''SEP'', ''OCT'', ''NOV'', ''DEC''] \<and>
   leer_archivo (\<lambda>_. Some \<lparr>columns = [Str ''PARAMETER'', Str ''YEAR''], rows = []\<rparr>)
     (\<lambda>_. None) (Some [''PARAMETER,YEAR'']) ''turrialba'' = Inl TablaVacia"
  by (simp add: columnas_faltantes_def columnas_necesarias_def leer_archivo_def transformar_def
      empty_df_def startswith_def strip_def isspace_def)











section \<open>Properties of the quality report\<close>

lemma isnull_sum_le:
  "\<forall>fila \<in> set (rows df). length fila = length (columns df) \<Longrightarrow>
   isnull_sum df \<le> length (rows df) * length (columns df)"
proof -
  have "sum_list (map (\<lambda>fila. length (filter (\<lambda>v. v = NaN) fila)) fs) \<le> length fs * n"
    if "\<forall>fila \<in> set fs. length fila = n" for fs :: "cell list list" and n
    using that
  proof (induction fs)
    case Nil
    then show ?case by simp
  next
    case (Cons f fs)
    have "length (filter (\<lambda>v. v = NaN) f) \<le> length f" by (rule length_filter_le)
    with Cons show ?case by simp
  qed
  then show "\<forall>fila \<in> set (rows df). length fila = length (columns df) \<Longrightarrow>
    isnull_sum df \<le> length (rows df) * length (columns df)"
    unfolding isnull_sum_def by blast
qed

text \<open>
  Claim C9. For a table with at least one row and one column (each row with one cell
  per column) the method returns the report, and its completeness percentage is
  \<open>(1 - missing / (rows * columns)) * 100\<close>, a number between 0 and 100. The arithmetic
  is that of the reals.
\<close>

theorem completeness_percentage_formula:
  assumes "rows df \<noteq> []" and "columns df \<noteq> []"
    and "\<forall>fila \<in> set (rows df). length fila = length (columns df)"
  shows "\<exists>r. generar_reporte_calidad df = Some r \<and>
           total_filas r = length (rows df) \<and> total_columnas r = length (columns df) \<and>
           valores_faltantes r = isnull_sum df \<and>
           porcentaje_completitud r =
             Finito ((1 - real (valores_faltantes r) /
                          real (total_filas r * total_columnas r)) * 100) \<and>
           0 \<le> (1 - real (valores_faltantes r) / real (total_filas r * total_columnas r)) * 100 \<and>
           (1 - real (valores_faltantes r) / real (total_filas r * total_columnas r)) * 100 \<le> 100"
proof -
  let ?n = "length (rows df) * length (columns df)"
  from assms(1,2) have pos: "0 < ?n" by simp
  from isnull_sum_le [OF assms(3)] have le: "isnull_sum df \<le> ?n" .
  from pos have rn: "0 < real ?n" by (simp only: of_nat_0_less_iff)
  from le have "real (isnull_sum df) \<le> real ?n" by (rule of_nat_mono)
  then have q1: "real (isnull_sum df) / real ?n \<le> 1"
    by (simp only: divide_le_eq_1_pos [OF rn])
  have q0: "0 \<le> real (isnull_sum df) / real ?n"
    by simp
  from pos have "np_true_divide (isnull_sum df) ?n = Finito (real (isnull_sum df) / real ?n)"
    by (simp add: np_true_divide_def)
  then have "generar_reporte_calidad df = Some
      \<lparr>total_filas = length (rows df), total_columnas = length (columns df),
       cantones_unicos =
         (if Str ''canton'' \<in> set (columns df) then nunique df (Str ''canton'') else 0),
       anios_unicos =
         (if Str ''anio'' \<in> set (columns df) then nunique df (Str ''anio'') else 0),
       meses_unicos =
         (if Str ''mes'' \<in> set (columns df) then nunique df (Str ''mes'') else 0),
       valores_faltantes = isnull_sum df,
       porcentaje_completitud = Finito ((1 - real (isnull_sum df) / real ?n) * 100)\<rparr>"
    by (simp add: generar_reporte_calidad_def construir_reporte_def)
  moreover have aux: "0 \<le> (1 - q) * 100 \<and> (1 - q) * 100 \<le> 100"
    if "0 \<le> q" "q \<le> 1" for q :: real
    using that by auto
  note aux [OF q0 q1]
  ultimately show ?thesis by simp
qed

theorem completeness_percentage_witness:
  "rows \<lparr>columns = [Str ''canton'', Str ''anio'', Str ''mes'', Str ''T2M''],
         rows = [[Str ''TURRIALBA'', Num 2020, Str ''JAN'', Num 21],
                 [Str ''TURRIALBA'', Num 2020, Str ''FEB'', NaN]]\<rparr> \<noteq> [] \<and>
   generar_reporte_calidad
     \<lparr>columns = [Str ''canton'', Str ''anio'', Str ''mes'', Str ''T2M''],
      rows = [[Str ''TURRIALBA'', Num 2020, Str ''JAN'', Num 21],
              [Str ''TURRIALBA'', Num 2020, Str ''FEB'', NaN]]\<rparr> =
     Some \<lparr>total_filas = 2, total_columnas = 4, cantones_unicos = 1, anios_unicos = 1,
           meses_unicos = 2, valores_faltantes = 1,
           porcentaje_completitud = Finito (175 / 2)\<rparr>"
proof -
  let ?df = "\<lparr>columns = [Str ''canton'', Str ''anio'', Str ''mes'', Str ''T2M''],
         rows = [[Str ''TURRIALBA'', Num 2020, Str ''JAN'', Num 21],
                 [Str ''TURRIALBA'', Num 2020, Str ''FEB'', NaN]]\<rparr>"
  have h1: "rows ?df \<noteq> []" by simp
  have h2: "columns ?df \<noteq> []" by simp
  have h3: "\<forall>fila \<in> set (rows ?df). length fila = length (columns ?df)" by simp
  have n: "isnull_sum ?df = 1" by (simp add: isnull_sum_def)
  have u: "nunique ?df (Str ''canton'') = 1" "nunique ?df (Str ''anio'') = 1"
    "nunique ?df (Str ''mes'') = 2"
    by (simp_all add: nunique_def celda_def)
  from completeness_percentage_formula [OF h1 h2 h3]
  obtain r where r: "generar_reporte_calidad ?df = Some r"
    and p: "porcentaje_completitud r =
      Finito ((1 - real (valores_faltantes r) / real (total_filas r * total_columnas r)) * 100)"
    by blast
  have "generar_reporte_calidad ?df =
     Some \<lparr>total_filas = 2, total_columnas = 4, cantones_unicos = 1, anios_unicos = 1,
           meses_unicos = 2, valores_faltantes = 1,
           porcentaje_completitud = porcentaje_completitud r\<rparr>"
    using r by (auto simp: generar_reporte_calidad_def construir_reporte_def n u)
  moreover from this r p have "porcentaje_completitud r = Finito (175 / 2)"
    by (cases r) auto
  ultimately show ?thesis using h1 by simp
qed



section \<open>Melting and pivoting\<close>






















end
